theory Spec2Isabelle
  imports Main
begin

section \<open>Values shared by the handlers\<close>

subsection \<open>Errors\<close>

text \<open>
  A Go \<open>error\<close> value. \<open>ErrNoRows\<close> is the sentinel \<open>sql.ErrNoRows\<close>, \<open>New\<close> an error
  made by \<open>errors.New\<close> or \<open>fmt.Errorf\<close> without \<open>%w\<close>, and \<open>Wrap msg e\<close> an error that
  wraps \<open>e\<close> (what \<open>Unwrap\<close> returns) under the message \<open>msg\<close>.
\<close>

datatype error = ErrNoRows | New string | Wrap string error

text \<open>\<open>err.Error()\<close>: the message of an error.\<close>

fun Error :: "error \<Rightarrow> string" where
  "Error ErrNoRows = ''sql: no rows in result set''"
| "Error (New msg) = msg"
| "Error (Wrap msg e) = msg"

text \<open>
  \<open>errors.Is(err, target)\<close>: \<open>err\<close> or an error in its \<open>Unwrap\<close> chain is the target.
  The handlers call it with the sentinel \<open>sql.ErrNoRows\<close> as the target only.
\<close>

fun errors_Is :: "error \<Rightarrow> error \<Rightarrow> bool" where
  "errors_Is ErrNoRows target = (ErrNoRows = target)"
| "errors_Is (New msg) target = (New msg = target)"
| "errors_Is (Wrap msg e) target = (Wrap msg e = target \<or> errors_Is e target)"

subsection \<open>Strings\<close>

text \<open>
  Go strings are byte sequences and \<open>len\<close> counts bytes, as \<open>length\<close> does on a
  \<open>string\<close> here. \<open>Split s c\<close> is \<open>strings.Split(s, sep)\<close> for a separator of the one
  byte \<open>c\<close> (the source calls it with \<open>"."\<close> and \<open>";"\<close> only): the pieces of \<open>s\<close> between
  the occurrences of \<open>c\<close>, and the one piece \<open>s\<close> when there is none.
\<close>

fun Split :: "string \<Rightarrow> char \<Rightarrow> string list" where
  "Split [] c = [[]]"
| "Split (x # xs) c =
     (if x = c then [] # Split xs c
      else (case Split xs c of [] \<Rightarrow> [[x]] | p # ps \<Rightarrow> (x # p) # ps))"

text \<open>The verb \<open>%d\<close> of \<open>fmt\<close>: an integer in decimal.\<close>

definition digit :: "nat \<Rightarrow> char" where
  "digit n = char_of (48 + n)"

function show_nat :: "nat \<Rightarrow> string" where
  "show_nat n = (if n < 10 then [digit n] else show_nat (n div 10) @ [digit (n mod 10)])"
  by pat_completeness auto
termination
  by (relation "measure (\<lambda>n. n)") auto

declare show_nat.simps [simp del]

definition Sprintf_d :: "int \<Rightarrow> string" where
  "Sprintf_d i = (if i < 0 then CHR ''-'' # show_nat (nat (- i)) else show_nat (nat i))"

subsection \<open>JSON values\<close>

text \<open>
  A JSON value as \<open>encoding/json\<close> reads and writes it. An object keeps its members in
  the order of the text, duplicates included; a number keeps its literal.
\<close>

datatype json =
    JNull
  | JBool bool
  | JNumber string
  | JString string
  | JArray "json list"
  | JObject "(string \<times> json) list"

subsection \<open>The response writer\<close>

text \<open>
  \<open>http.ResponseWriter\<close>, as \<open>net/http\<close> documents and implements it. \<open>Header\<close> is the
  header map the handler edits. \<open>WriteHeader\<close> with a code from 100 to 199 other than
  101 sends an informational header and leaves the response open; the first
  \<open>WriteHeader\<close> with another code sends that code as the status of the response, with
  the header map as it is then (\<open>sentHeader\<close>), and later calls change nothing.
  \<open>Write\<close> sends the header with status 200 when none was sent yet; it then appends
  the bytes to the body, unless the status allows no body (a 1xx code, 204, 304), in
  which case nothing is written and \<open>ErrBodyNotAllowed\<close> returned. \<open>body\<close> is what the
  handler wrote.

  Two things are left out. \<open>WriteHeader\<close> panics for a code below 100 or above 999:
  the handlers pass 200, 400, 404 and 500 only, and a statement about a caller that
  passes on a code it was given assumes the code between 200 and 999. And \<open>Write\<close>
  adds a \<open>Content-Type\<close> found by sniffing the bytes when the handler has set none:
  \<open>sentHeader\<close> holds the header map of the handler, and no statement reads the
  \<open>Content-Type\<close> of a response for which the handler set none.
\<close>

record ResponseWriter =
  Header :: "string \<rightharpoonup> string"
  wroteHeader :: bool
  status :: int
  sentHeader :: "string \<rightharpoonup> string"
  informational :: "int list"
  body :: string

definition NewResponseWriter :: ResponseWriter where
  "NewResponseWriter =
     \<lparr>Header = Map.empty, wroteHeader = False, status = 0, sentHeader = Map.empty,
      informational = [], body = []\<rparr>"

definition Header_Set :: "string \<Rightarrow> string \<Rightarrow> ResponseWriter \<Rightarrow> ResponseWriter" where
  "Header_Set k v w = w\<lparr>Header := (Header w)(k \<mapsto> v)\<rparr>"

definition WriteHeader :: "int \<Rightarrow> ResponseWriter \<Rightarrow> ResponseWriter" where
  "WriteHeader code w =
     (if wroteHeader w then w
      else if 100 \<le> code \<and> code \<le> 199 \<and> code \<noteq> 101
      then w\<lparr>informational := informational w @ [code]\<rparr>
      else w\<lparr>wroteHeader := True, status := code, sentHeader := Header w\<rparr>)"

definition bodyAllowedForStatus :: "int \<Rightarrow> bool" where
  "bodyAllowedForStatus st = (\<not> (100 \<le> st \<and> st \<le> 199) \<and> st \<noteq> 204 \<and> st \<noteq> 304)"

definition ErrBodyNotAllowed :: error where
  "ErrBodyNotAllowed = New ''http: request method or response status code does not allow body''"

definition Write :: "string \<Rightarrow> ResponseWriter \<Rightarrow> error option \<times> ResponseWriter" where
  "Write bs w =
     (let w1 = WriteHeader 200 w in
      if bs = [] then (None, w1)
      else if \<not> bodyAllowedForStatus (status w1) then (Some ErrBodyNotAllowed, w1)
      else (None, w1\<lparr>body := body w1 @ bs\<rparr>))"

subsection \<open>Data of the repository\<close>

text \<open>
  Modelled from the spec: \<open>database.Document\<close> is declared outside the files at hand. The
  spec gives a document an identifier, a content and two timestamps; the handlers read
  the content only. How a document marshals to JSON depends on that declaration and is
  a parameter (\<open>Marshal_Document\<close> below).
\<close>

record Document =
  ID :: string
  Content :: string
  CreatedAt :: int
  UpdatedAt :: int

record CreateRequest =
  Content :: string

record SigninRequest =
  Username :: string
  Password :: string

record SignupRequest =
  Username :: string
  Password :: string

record Config =
  IDLength :: int
  Documents :: "string list"

text \<open>
  The server: its configuration and its database, of which the handlers use
  \<open>GetDocument\<close> only (the request context is left to the database).
\<close>

record Server =
  Config :: Config
  GetDocument :: "string \<Rightarrow> error + Document"

text \<open>
  A parsed \<open>html/template\<close> is what executing it does: from the data, the bytes it writes
  and the error it ends with, if any. Data values are plain strings or strings marked as
  trusted HTML or CSS.
\<close>

datatype tvalue = TString string | THTML string | TCSS string

datatype Template = Template (Execute: "(string \<times> tvalue) list \<Rightarrow> string \<times> error option")

text \<open>
  The request, as far as the handlers read it: the route parameters of chi, the query
  string, the header, and the body. The body is held as what its two readers make of it:
  \<open>Body\<close> is what the scanner of \<open>encoding/json\<close> reads from the stream, its first JSON
  value or an error (a syntax error, or \<open>io.EOF\<close> on an empty body); \<open>ParseMultipartForm\<close>
  is the result of parsing it as a form under a memory bound, giving \<open>FormValue\<close>.
\<close>

record Request =
  URLParam :: "string \<Rightarrow> string"
  Query_Get :: "string \<Rightarrow> string"
  Header_Get :: "string \<Rightarrow> string"
  Body :: "error + json"
  ParseMultipartForm :: "int \<Rightarrow> error + (string \<Rightarrow> string)"

text \<open>
  What the handlers call outside the files at hand: the embedded template files
  (\<open>template.ParseFS(resources, name)\<close>), \<open>util.ParseMarkdown\<close>, \<open>util.Highlight\<close>,
  \<open>config.Config.Analytics\<close>, \<open>http.StatusText\<close>, and \<open>encoding/json\<close>: how a document
  marshals (an error, or its JSON value) and the compact text of a JSON value.
\<close>

record Externals =
  ParseFS :: "string \<Rightarrow> error + Template"
  ParseMarkdown :: "string \<Rightarrow> string"
  Highlight :: "string \<Rightarrow> string \<Rightarrow> error + (string \<times> string)"
  Analytics :: string
  StatusText :: "int \<Rightarrow> string"
  Marshal_Document :: "Document \<Rightarrow> error + json"
  render :: "json \<Rightarrow> string"

text \<open>
  A handler's run: the response so far, the identifiers passed to the database and the
  (content, extension) pairs passed to the highlighter, in order, and the panic that
  ended the run, if one did.
\<close>

record exec =
  resp :: ResponseWriter
  queries :: "string list"
  highlights :: "(string \<times> string) list"
  panicked :: "error option"

definition start :: exec where
  "start = \<lparr>resp = NewResponseWriter, queries = [], highlights = [], panicked = None\<rparr>"

section \<open>util: writers of responses\<close>

text \<open>
  \<open>json.NewEncoder(w).Encode(v)\<close>: when \<open>v\<close> marshals, its text and a newline are
  written, and the error of that write returned; when it does not, nothing is written
  and the error is returned.
\<close>

definition Encode :: "Externals \<Rightarrow> error + json \<Rightarrow> ResponseWriter \<Rightarrow> error option \<times> ResponseWriter" where
  "Encode ext v w =
     (case v of
        Inl e \<Rightarrow> (Some e, w)
      | Inr j \<Rightarrow> Write (render ext j @ [CHR 0x0A]) w)"

text \<open>
  A \<open>map[string]interface{}\<close> of the two keys \<open>payload\<close> and \<open>error\<close> marshals to an
  object with the keys sorted, and fails when a value fails.
\<close>

definition marshal_envelope :: "error + json \<Rightarrow> error + json \<Rightarrow> error + json" where
  "marshal_envelope payload err =
     (case err of
        Inl e \<Rightarrow> Inl e
      | Inr je \<Rightarrow>
          (case payload of
             Inl e \<Rightarrow> Inl e
           | Inr jp \<Rightarrow> Inr (JObject [(''error'', je), (''payload'', jp)])))"

text \<open>
  \<open>WriteJSON[R any]\<close>: \<open>marshal\<close> is how \<open>encoding/json\<close> marshals a value of the type
  \<open>R\<close>. The result of \<open>Encode\<close> is dropped and \<open>nil\<close> returned.
\<close>

definition WriteJSON ::
  "Externals \<Rightarrow> ('r \<Rightarrow> error + json) \<Rightarrow> ResponseWriter \<Rightarrow> int \<Rightarrow> 'r \<Rightarrow> error option \<times> ResponseWriter" where
  "WriteJSON ext marshal w st r =
     (let w1 = Header_Set ''Content-Type'' ''application/json'' w;
          w2 = WriteHeader st w1;
          (_, w3) = Encode ext (marshal_envelope (marshal r) (Inr (JString ''''))) w2
      in (None, w3))"

text \<open>\<open>WriteError\<close>; the debug log line goes to the process log, not to the response.\<close>

definition WriteError :: "Externals \<Rightarrow> ResponseWriter \<Rightarrow> int \<Rightarrow> error \<Rightarrow> error option \<times> ResponseWriter" where
  "WriteError ext w st e =
     (let w1 = Header_Set ''Content-Type'' ''application/json'' w;
          w2 = WriteHeader st w1;
          (_, w3) = Encode ext (marshal_envelope (Inr (JObject [])) (Inr (JString (Error e)))) w2
      in (None, w3))"

text \<open>
  \<open>t.Execute(w, data)\<close>: the bytes the template produces are written to \<open>w\<close>, and a
  write that fails ends the execution with its error.
\<close>

definition Execute_to :: "Template \<Rightarrow> ResponseWriter \<Rightarrow> (string \<times> tvalue) list \<Rightarrow> error option \<times> ResponseWriter" where
  "Execute_to t w data =
     (let (out, err) = Execute t data in
      if out = [] then (err, w)
      else (case Write out w of
              (Some werr, w1) \<Rightarrow> (Some werr, w1)
            | (None, w1) \<Rightarrow> (err, w1)))"

text \<open>
  \<open>RenderError\<close>: \<open>template.Must\<close> panics when the error template does not parse,
  before anything is written.
\<close>

definition RenderError :: "Externals \<Rightarrow> exec \<Rightarrow> int \<Rightarrow> error \<Rightarrow> error option \<times> exec" where
  "RenderError ext x st err =
     (case ParseFS ext ''web/error.html'' of
        Inl e \<Rightarrow> (None, x\<lparr>panicked := Some e\<rparr>)
      | Inr tmpl \<Rightarrow>
          (let w1 = Header_Set ''Content-Type'' ''text/html'' (resp x);
               w2 = WriteHeader st w1;
               data = [(''Status'', TString (Sprintf_d st @ '' '' @ StatusText ext st)),
                       (''Error'', TString (Error err))];
               (e, w3) = Execute_to tmpl w2 data
           in (e, x\<lparr>resp := w3\<rparr>)))"

section \<open>server: the retrieval handlers\<close>

definition getDocument :: "Server \<Rightarrow> string \<Rightarrow> exec \<Rightarrow> (error + Document) \<times> exec" where
  "getDocument s ident x = (GetDocument s ident, x\<lparr>queries := queries x @ [ident]\<rparr>)"

definition id_error :: "string \<Rightarrow> Server \<Rightarrow> error" where
  "id_error ident s =
     New (''id is of length '' @ Sprintf_d (int (length ident)) @ '', should be ''
          @ Sprintf_d (IDLength (Config s)))"

definition FetchDocument :: "Externals \<Rightarrow> Server \<Rightarrow> Request \<Rightarrow> exec \<Rightarrow> exec" where
  "FetchDocument ext s r x =
     (let ident = URLParam r ''document'' in
      if int (length ident) \<noteq> IDLength (Config s) \<and> ident \<notin> set (Documents (Config s)) then
        x\<lparr>resp := snd (WriteError ext (resp x) 400 (id_error ident s))\<rparr>
      else
        (let (res, x1) = getDocument s ident x in
         case res of
           Inl err \<Rightarrow>
             if errors_Is err ErrNoRows
             then x1\<lparr>resp := snd (WriteError ext (resp x1) 404 err)\<rparr>
             else x1\<lparr>resp := snd (WriteError ext (resp x1) 500 err)\<rparr>
         | Inr document \<Rightarrow>
             (case WriteJSON ext (Marshal_Document ext) (resp x1) 200 document of
                (Some err, w1) \<Rightarrow> x1\<lparr>resp := snd (WriteError ext w1 500 err)\<rparr>
              | (None, w1) \<Rightarrow> x1\<lparr>resp := w1\<rparr>)))"

definition FetchRawDocument :: "Externals \<Rightarrow> Server \<Rightarrow> Request \<Rightarrow> exec \<Rightarrow> exec" where
  "FetchRawDocument ext s r x =
     (let ident = URLParam r ''document'' in
      if int (length ident) \<noteq> IDLength (Config s) \<and> ident \<notin> set (Documents (Config s)) then
        x\<lparr>resp := snd (WriteError ext (resp x) 400 (id_error ident s))\<rparr>
      else
        (let (res, x1) = getDocument s ident x;
             w1 = Header_Set ''Content-Type'' ''text/plain'' (resp x1)
         in
         case res of
           Inl err \<Rightarrow>
             if errors_Is err ErrNoRows
             then x1\<lparr>resp := snd (Write (''Document with ID '' @ ident @ '' not found: '' @ Error err)
                                      (WriteHeader 404 w1))\<rparr>
             else x1\<lparr>resp := snd (Write (''Error fetching document with ID '' @ ident @ '': ''
                                         @ Error err)
                                      (WriteHeader 500 w1))\<rparr>
         | Inr document \<Rightarrow>
             x1\<lparr>resp := snd (Write (Document.Content document) (WriteHeader 200 w1))\<rparr>))"

text \<open>
  \<open>StaticDocument\<close>. \<open>params[0]\<close> panics on an empty slice, which \<open>Split\<close> never returns;
  every call of \<open>RenderError\<close> is followed by \<open>return\<close>.
\<close>

definition StaticDocument :: "Externals \<Rightarrow> Server \<Rightarrow> Request \<Rightarrow> exec \<Rightarrow> exec" where
  "StaticDocument ext s r x =
     (let params = Split (URLParam r ''document'') (CHR ''.'') in
      case params of
        [] \<Rightarrow> x\<lparr>panicked := Some (New ''runtime error: index out of range [0] with length 0'')\<rparr>
      | ident # _ \<Rightarrow>
          if int (length ident) \<noteq> IDLength (Config s) \<and> ident \<notin> set (Documents (Config s)) then
            snd (RenderError ext x 400 (id_error ident s))
          else
            (let (res, x1) = getDocument s ident x in
             case res of
               Inl err \<Rightarrow>
                 if errors_Is err ErrNoRows
                 then snd (RenderError ext x1 404 err)
                 else snd (RenderError ext x1 500 err)
             | Inr document \<Rightarrow>
                 if Query_Get r ''reader'' = ''true'' then
                   (case ParseFS ext ''web/reader.html'' of
                      Inl err \<Rightarrow> snd (RenderError ext x1 500 err)
                    | Inr t \<Rightarrow>
                        (let content = ParseMarkdown ext (Document.Content document);
                             data = [(''Content'', THTML content),
                                     (''Analytics'', THTML (Analytics ext))]
                         in case Execute_to t (resp x1) data of
                              (Some err, w1) \<Rightarrow> snd (RenderError ext (x1\<lparr>resp := w1\<rparr>) 500 err)
                            | (None, w1) \<Rightarrow> x1\<lparr>resp := w1\<rparr>))
                 else
                   (case ParseFS ext ''web/document.html'' of
                      Inl err \<Rightarrow> snd (RenderError ext x1 500 err)
                    | Inr t \<Rightarrow>
                        (let extension = (if length params = 2 then params ! 1 else '''');
                             x2 = x1\<lparr>highlights :=
                                       highlights x1 @ [(Document.Content document, extension)]\<rparr>
                         in case Highlight ext (Document.Content document) extension of
                              Inl err \<Rightarrow> snd (RenderError ext x2 500 err)
                            | Inr (highlighted, css) \<Rightarrow>
                                (let data = [(''Stylesheet'', TCSS css),
                                             (''Content'', TString (Document.Content document)),
                                             (''Highlighted'', THTML highlighted),
                                             (''Extension'', TString extension),
                                             (''Analytics'', THTML (Analytics ext))]
                                 in case Execute_to t (resp x2) data of
                                      (Some err, w1) \<Rightarrow>
                                        snd (RenderError ext (x2\<lparr>resp := w1\<rparr>) 500 err)
                                    | (None, w1) \<Rightarrow> x2\<lparr>resp := w1\<rparr>)))))"

section \<open>util: the body of a request\<close>

subsection \<open>The field validator\<close>

text \<open>
  The rules of ozzo-validation that \<open>ValidateBody\<close> uses, on a string value.
  \<open>Required\<close> rejects the empty string. \<open>Length min max\<close> accepts the empty string and
  otherwise compares the length in bytes with the bounds, a bound of 0 being no bound
  (and both 0 meaning the value must be empty).
\<close>

datatype Rule = Required | Length int int

datatype violation = ErrRequired | ErrLength int int

fun Rule_Validate :: "Rule \<Rightarrow> string \<Rightarrow> violation option" where
  "Rule_Validate Required v = (if v = [] then Some ErrRequired else None)"
| "Rule_Validate (Length lo hi) v =
     (if v = [] then None
      else (let l = int (length v) in
            if (lo > 0 \<and> l < lo) \<or> (hi > 0 \<and> l > hi) \<or> (lo = 0 \<and> hi = 0 \<and> l > 0)
            then Some (ErrLength lo hi) else None))"

text \<open>\<open>validation.Validate\<close>: the rules in order, stopping at the first that fails.\<close>

fun Validate :: "string \<Rightarrow> Rule list \<Rightarrow> violation option" where
  "Validate v [] = None"
| "Validate v (rule # rules) =
     (case Rule_Validate rule v of Some e \<Rightarrow> Some e | None \<Rightarrow> Validate v rules)"

text \<open>
  \<open>validation.Field\<close> pairs a field (its name and value) with its rules;
  \<open>validation.ValidateStruct\<close> returns the violations by field (\<open>validation.Errors\<close>),
  or \<open>nil\<close> when there is none.
\<close>

type_synonym FieldRules = "string \<times> string \<times> Rule list"

definition Field :: "string \<Rightarrow> string \<Rightarrow> Rule list \<Rightarrow> FieldRules" where
  "Field name v rules = (name, v, rules)"

fun field_errors :: "FieldRules list \<Rightarrow> (string \<times> violation) list" where
  "field_errors [] = []"
| "field_errors ((name, v, rules) # fs) =
     (case Validate v rules of
        Some e \<Rightarrow> (name, e) # field_errors fs
      | None \<Rightarrow> field_errors fs)"

definition ValidateStruct :: "FieldRules list \<Rightarrow> (string \<times> violation) list option" where
  "ValidateStruct fs = (let errs = field_errors fs in if errs = [] then None else Some errs)"

text \<open>
  The type parameter \<open>T\<close> of \<open>ValidateBody\<close> ranges over the three request types; the
  \<open>default\<close> branch of its type switch is for no value of them.
\<close>

datatype AnyRequest =
    OfCreateRequest CreateRequest
  | OfSigninRequest SigninRequest
  | OfSignupRequest SignupRequest

fun ValidateBody :: "int \<Rightarrow> AnyRequest \<Rightarrow> (string \<times> violation) list option" where
  "ValidateBody maxSize (OfCreateRequest v) =
     ValidateStruct
       [Field ''Content'' (CreateRequest.Content v) [Required, Length 2 maxSize]]"
| "ValidateBody maxSize (OfSigninRequest v) =
     ValidateStruct
       [Field ''Username'' (SigninRequest.Username v) [Required],
        Field ''Password'' (SigninRequest.Password v) [Required, Length 16 128]]"
| "ValidateBody maxSize (OfSignupRequest v) =
     ValidateStruct
       [Field ''Username'' (SignupRequest.Username v) [Required],
        Field ''Password'' (SignupRequest.Password v) [Required, Length 16 128]]"

subsection \<open>The body decoder\<close>

text \<open>
  \<open>Decode(&resp)\<close> of \<open>encoding/json\<close> into a \<open>map[string]string\<close>. The name of a JSON
  value in the error of a type mismatch:
\<close>

fun json_kind :: "json \<Rightarrow> string" where
  "json_kind JNull = ''null''"
| "json_kind (JBool b) = ''bool''"
| "json_kind (JNumber n) = ''number''"
| "json_kind (JString s) = ''string''"
| "json_kind (JArray xs) = ''array''"
| "json_kind (JObject kvs) = ''object''"

definition UnmarshalTypeError :: "json \<Rightarrow> string \<Rightarrow> error" where
  "UnmarshalTypeError v ty =
     New (''json: cannot unmarshal '' @ json_kind v @ '' into Go value of type '' @ ty)"

text \<open>
  A member value for an element of type \<open>string\<close>: a JSON string is stored, \<open>null\<close>
  leaves the element at its zero value without an error, and any other value is a
  type mismatch, which leaves the zero value too.
\<close>

fun decode_string :: "json \<Rightarrow> string \<times> error option" where
  "decode_string (JString s) = (s, None)"
| "decode_string JNull = ([], None)"
| "decode_string v = ([], Some (UnmarshalTypeError v ''string''))"

text \<open>
  The members of an object in order: each key is set in the map (a later duplicate
  replaces an earlier one); decoding goes on after a type mismatch and the first one is
  kept as the error.
\<close>

fun decode_members ::
  "(string \<times> json) list \<Rightarrow> (string \<rightharpoonup> string) \<Rightarrow> error option
     \<Rightarrow> (string \<rightharpoonup> string) \<times> error option" where
  "decode_members [] m saved = (m, saved)"
| "decode_members ((k, v) # kvs) m saved =
     (let (s, e) = decode_string v
      in decode_members kvs (m(k \<mapsto> s))
           (case saved of Some e0 \<Rightarrow> Some e0 | None \<Rightarrow> e))"

text \<open>
  The whole value into the map \<open>dst\<close>: an object fills it, \<open>null\<close> sets it to the nil
  map, anything else is a type mismatch. The result is the error, or the map.
\<close>

definition Decode :: "error + json \<Rightarrow> (string \<rightharpoonup> string) \<Rightarrow> error + (string \<rightharpoonup> string)" where
  "Decode b dst =
     (case b of
        Inl e \<Rightarrow> Inl e
      | Inr JNull \<Rightarrow> Inr Map.empty
      | Inr (JObject kvs) \<Rightarrow>
          (case decode_members kvs dst None of
             (m, Some e) \<Rightarrow> Inl e
           | (m, None) \<Rightarrow> Inr m)
      | Inr v \<Rightarrow> Inl (UnmarshalTypeError v ''map[string]string''))"

text \<open>Indexing a \<open>map[string]string\<close>: the zero value for an absent key.\<close>

definition index :: "(string \<rightharpoonup> string) \<Rightarrow> string \<Rightarrow> string" where
  "index m k = (case m k of None \<Rightarrow> [] | Some v \<Rightarrow> v)"

text \<open>
  \<open>HandleBody\<close> returns a request and an error (\<open>None\<close> for \<open>nil\<close>); \<open>Inl\<close> is the panic
  of indexing an empty slice, which \<open>Split\<close> never returns.
\<close>

text \<open>
  The memory bound of the form parser, \<open>int64(float64(maxSize) * math.Pow(1024, 2))\<close>.
  When the product is an \<open>int64\<close>, \<open>maxSize\<close> is at most 2 to the power 43 in absolute value, so
  that the conversion to \<open>float64\<close> and the multiplication by a power of two are exact.
  When it is not, the result of the conversion is left to the implementation; it is
  the least \<open>int64\<close> on amd64.
\<close>

definition maxMemory :: "int \<Rightarrow> int" where
  "maxMemory maxSize =
     (let v = maxSize * 1024\<^sup>2 in
      if - (2 ^ 63) \<le> v \<and> v < 2 ^ 63 then v else - (2 ^ 63))"

definition HandleBody :: "int \<Rightarrow> Request \<Rightarrow> error + (CreateRequest \<times> error option)" where
  "HandleBody maxSize r =
     (case Split (Header_Get r ''Content-Type'') (CHR '';'') of
        [] \<Rightarrow> Inl (New ''runtime error: index out of range [0] with length 0'')
      | ct # _ \<Rightarrow>
          if ct = ''application/json'' then
            (case Decode (Body r) Map.empty of
               Inl err \<Rightarrow> Inr (\<lparr>CreateRequest.Content = []\<rparr>, Some err)
             | Inr m \<Rightarrow> Inr (\<lparr>CreateRequest.Content = index m ''content''\<rparr>, None))
          else if ct = ''multipart/form-data'' then
            (case ParseMultipartForm r (maxMemory maxSize) of
               Inl err \<Rightarrow> Inr (\<lparr>CreateRequest.Content = []\<rparr>, Some err)
             | Inr FormValue \<Rightarrow> Inr (\<lparr>CreateRequest.Content = FormValue ''content''\<rparr>, None))
          else Inr (\<lparr>CreateRequest.Content = []\<rparr>, None))"

section \<open>The specification's notions\<close>

text \<open>
  From the spec (4.1): \<open>validate(id, configuredLength, reservedIds)\<close> succeeds when the
  identifier has the configured length or is a reserved identifier.
\<close>

definition validate :: "string \<Rightarrow> int \<Rightarrow> string set \<Rightarrow> bool" where
  "validate ident L reserved = (int (length ident) = L \<or> ident \<in> reserved)"

text \<open>
  What is seen of a run from \<open>x\<close> to \<open>y\<close>: the handler asked the database for \<open>ident\<close>,
  or it answered 400 without asking the database.
\<close>

definition looked_up :: "exec \<Rightarrow> exec \<Rightarrow> string \<Rightarrow> bool" where
  "looked_up x y ident = (queries y = queries x @ [ident])"

definition refused :: "exec \<Rightarrow> exec \<Rightarrow> bool" where
  "refused x y = (queries y = queries x \<and> wroteHeader (resp y) \<and> status (resp y) = 400)"

text \<open>From the spec (4.2, 4.6): a storage error is "not found" (404) or anything else (500).\<close>

definition storage_error_status :: "error \<Rightarrow> int" where
  "storage_error_status err = (if errors_Is err ErrNoRows then 404 else 500)"

section \<open>A concrete server\<close>

text \<open>
  A configuration with identifiers of length 6 and the reserved identifier \<open>about\<close>, a
  store that holds \<open>abcdef\<close>, fails on \<open>qwerty\<close> and has no other row, templates that
  all parse, and a renderer of JSON that agrees with \<open>encoding/json\<close> on strings with
  nothing to escape.
\<close>

definition page :: Template where
  "page = Template (\<lambda>data. (''<html></html>'', None))"

fun commas :: "string list \<Rightarrow> string" where
  "commas [] = []"
| "commas [x] = x"
| "commas (x # y # ys) = x @ '','' @ commas (y # ys)"

definition quoted :: "string \<Rightarrow> string" where
  "quoted s = CHR 0x22 # s @ [CHR 0x22]"

fun compact :: "json \<Rightarrow> string" where
  "compact JNull = ''null''"
| "compact (JBool b) = (if b then ''true'' else ''false'')"
| "compact (JNumber n) = n"
| "compact (JString s) = quoted s"
| "compact (JArray xs) = ''['' @ commas (map compact xs) @ '']''"
| "compact (JObject kvs) = ''{'' @ commas (map (\<lambda>(k, v). quoted k @ '':'' @ compact v) kvs) @ ''}''"

definition doc0 :: Document where
  "doc0 = \<lparr>Document.ID = ''abcdef'', Document.Content = ''package main'',
           CreatedAt = 1700000000, UpdatedAt = 1700000000\<rparr>"

definition ext0 :: Externals where
  "ext0 = \<lparr>ParseFS = (\<lambda>name. Inr page),
           ParseMarkdown = (\<lambda>source. source),
           Highlight = (\<lambda>content extension. Inr (content, [])),
           Analytics = [],
           StatusText = (\<lambda>code. if code = 400 then ''Bad Request'' else if code = 404 then ''Not Found''
                                  else if code = 500 then ''Internal Server Error'' else []),
           Marshal_Document = (\<lambda>d. Inr (JObject [(''id'', JString (Document.ID d)),
                                                    (''content'', JString (Document.Content d))])),
           render = compact\<rparr>"

text \<open>The same, with documents that do not marshal.\<close>

definition ext1 :: Externals where
  "ext1 = ext0\<lparr>Marshal_Document :=
                 (\<lambda>d. Inl (New ''json: error calling MarshalJSON''))\<rparr>"

definition srv0 :: Server where
  "srv0 = \<lparr>Config = \<lparr>IDLength = 6, Documents = [''about'']\<rparr>,
           GetDocument = (\<lambda>ident. if ident = ''abcdef'' then Inr doc0
                                    else if ident = ''qwerty'' then Inl (New ''connection refused'')
                                    else Inl ErrNoRows)\<rparr>"

text \<open>A GET request with the route parameter \<open>p\<close>, and a POST with a content type and a body.\<close>

definition get :: "string \<Rightarrow> Request" where
  "get p = \<lparr>URLParam = (\<lambda>key. if key = ''document'' then p else []),
            Query_Get = (\<lambda>key. []),
            Header_Get = (\<lambda>key. []),
            Body = Inl (New ''EOF''),
            ParseMultipartForm = (\<lambda>bound. Inl (New ''request is not multipart/form-data''))\<rparr>"

definition post :: "string \<Rightarrow> error + json \<Rightarrow> Request" where
  "post ct b = \<lparr>URLParam = (\<lambda>key. []),
               Query_Get = (\<lambda>key. []),
               Header_Get = (\<lambda>key. if key = ''Content-Type'' then ct else []),
               Body = b,
               ParseMultipartForm = (\<lambda>bound. Inl (New ''request is not multipart/form-data''))\<rparr>"

text \<open>
  A payload type that \<open>encoding/json\<close> does not marshal: a channel, for which
  \<open>Marshal\<close> returns an \<open>UnsupportedTypeError\<close>.
\<close>

datatype chan = Chan

definition marshal_chan :: "chan \<Rightarrow> error + json" where
  "marshal_chan c = Inl (New ''json: unsupported type: chan int'')"

section \<open>Lemmas on the model\<close>

lemmas fixtures = get_def post_def srv0_def ext0_def ext1_def doc0_def start_def
  NewResponseWriter_def page_def marshal_chan_def

subsection \<open>Split\<close>

lemma Split_nonempty: "Split s c \<noteq> []"
  by (induction s) (auto split: list.splits)

lemma Split_first: "Split s c = p # ps \<Longrightarrow> p = takeWhile (\<lambda>x. x \<noteq> c) s"
  by (induction s arbitrary: p ps) (auto simp: Split_nonempty split: list.splits if_splits)

lemma Split_no_sep: "c \<notin> set s \<Longrightarrow> Split s c = [s]"
  by (induction s) auto

lemma length_Split: "length (Split s c) = Suc (count_list s c)"
  by (induction s) (auto split: list.splits simp: Split_nonempty)

lemma Split_one:
  "count_list s c = 1 \<Longrightarrow>
     Split s c = [takeWhile (\<lambda>x. x \<noteq> c) s, drop (Suc (length (takeWhile (\<lambda>x. x \<noteq> c) s))) s]"
proof (induction s)
  case Nil
  then show ?case by simp
next
  case (Cons a s)
  show ?case
  proof (cases "a = c")
    case True
    with Cons.prems have "count_list s c = 0" by simp
    then have "c \<notin> set s" by (simp add: count_list_0_iff)
    with True show ?thesis by (simp add: Split_no_sep)
  next
    case False
    with Cons show ?thesis by simp
  qed
qed

lemma takeWhile_until: "c \<notin> set i \<Longrightarrow> takeWhile (\<lambda>x. x \<noteq> c) (i @ c # e) = i"
  by (induction i) auto

lemma one_dot:
  assumes "c \<notin> set i" and "c \<notin> set e"
  shows "count_list (i @ c # e) c = 1"
  using assms by (simp add: count_list_0_iff)

subsection \<open>The writers\<close>

lemma WriteJSON_returns_nil: "fst (WriteJSON ext marshal w st r) = None"
  by (simp add: WriteJSON_def Let_def split: prod.splits)

lemma storage_error_status_final:
  "200 \<le> storage_error_status err \<and> storage_error_status err \<noteq> 204
     \<and> storage_error_status err \<noteq> 304"
  by (simp add: storage_error_status_def)

lemma WriteError_sends:
  "\<not> wroteHeader w \<Longrightarrow> 200 \<le> st \<Longrightarrow> st \<noteq> 204 \<Longrightarrow> st \<noteq> 304 \<Longrightarrow>
     snd (WriteError ext w st e) =
       w\<lparr>Header := (Header w)(''Content-Type'' \<mapsto> ''application/json''),
         wroteHeader := True, status := st,
         sentHeader := (Header w)(''Content-Type'' \<mapsto> ''application/json''),
         body := body w @ render ext (JObject [(''error'', JString (Error e)), (''payload'', JObject [])])
                 @ [CHR 0x0A]\<rparr>"
  by (simp add: WriteError_def Encode_def marshal_envelope_def Write_def WriteHeader_def
        bodyAllowedForStatus_def Header_Set_def Let_def)

lemma WriteJSON_sends:
  "\<not> wroteHeader w \<Longrightarrow> 200 \<le> st \<Longrightarrow> st \<noteq> 204 \<Longrightarrow> st \<noteq> 304 \<Longrightarrow>
     snd (WriteJSON ext marshal w st r) =
       (case marshal r of
          Inl e \<Rightarrow>
            w\<lparr>Header := (Header w)(''Content-Type'' \<mapsto> ''application/json''),
              wroteHeader := True, status := st,
              sentHeader := (Header w)(''Content-Type'' \<mapsto> ''application/json'')\<rparr>
        | Inr p \<Rightarrow>
            w\<lparr>Header := (Header w)(''Content-Type'' \<mapsto> ''application/json''),
              wroteHeader := True, status := st,
              sentHeader := (Header w)(''Content-Type'' \<mapsto> ''application/json''),
              body := body w @ render ext (JObject [(''error'', JString []), (''payload'', p)])
                      @ [CHR 0x0A]\<rparr>)"
  by (simp add: WriteJSON_def Encode_def marshal_envelope_def Write_def WriteHeader_def
        bodyAllowedForStatus_def Header_Set_def Let_def split: sum.splits)

lemma RenderError_sends:
  "\<not> wroteHeader (resp x) \<Longrightarrow> 200 \<le> st \<Longrightarrow> ParseFS ext ''web/error.html'' = Inr t \<Longrightarrow>
     status (resp (snd (RenderError ext x st e))) = st \<and>
     wroteHeader (resp (snd (RenderError ext x st e))) \<and>
     sentHeader (resp (snd (RenderError ext x st e))) ''Content-Type'' = Some ''text/html'' \<and>
     panicked (snd (RenderError ext x st e)) = panicked x"
  by (simp add: RenderError_def Execute_to_def Write_def WriteHeader_def Header_Set_def Let_def
           split: prod.splits option.splits)

lemma WriteError_other_codes:
  "body (snd (WriteError ext NewResponseWriter 204 e)) = []
   \<and> status (snd (WriteError ext NewResponseWriter 100 e)) = 200
   \<and> informational (snd (WriteError ext NewResponseWriter 100 e)) = [100]"
  by (simp add: WriteError_def Encode_def marshal_envelope_def Write_def WriteHeader_def
        bodyAllowedForStatus_def Header_Set_def Let_def NewResponseWriter_def)

lemma RenderError_panics:
  "ParseFS ext ''web/error.html'' = Inl e \<Longrightarrow>
     RenderError ext x st err = (None, x\<lparr>panicked := Some e\<rparr>)"
  by (simp add: RenderError_def)

lemma queries_RenderError: "queries (snd (RenderError ext x st e)) = queries x"
  by (simp add: RenderError_def Execute_to_def Let_def split: prod.splits sum.splits)

lemma highlights_RenderError: "highlights (snd (RenderError ext x st e)) = highlights x"
  by (simp add: RenderError_def Execute_to_def Let_def split: prod.splits sum.splits)

subsection \<open>The paths of the handlers\<close>

lemma queries_FetchDocument:
  "queries (FetchDocument ext s r x) =
     queries x @ (if validate (URLParam r ''document'') (IDLength (Config s)) (set (Documents (Config s)))
                  then [URLParam r ''document''] else [])"
  by (simp add: FetchDocument_def validate_def getDocument_def Let_def
           split: sum.splits prod.splits option.splits)

lemma queries_FetchRawDocument:
  "queries (FetchRawDocument ext s r x) =
     queries x @ (if validate (URLParam r ''document'') (IDLength (Config s)) (set (Documents (Config s)))
                  then [URLParam r ''document''] else [])"
  by (simp add: FetchRawDocument_def validate_def getDocument_def Let_def
           split: sum.splits prod.splits option.splits)

lemma queries_StaticDocument:
  "queries (StaticDocument ext s r x) =
     queries x @ (if validate (takeWhile (\<lambda>c. c \<noteq> CHR ''.'') (URLParam r ''document''))
                       (IDLength (Config s)) (set (Documents (Config s)))
                  then [takeWhile (\<lambda>c. c \<noteq> CHR ''.'') (URLParam r ''document'')] else [])"
proof (cases "Split (URLParam r ''document'') (CHR ''.'')")
  case Nil
  then show ?thesis by (simp add: Split_nonempty)
next
  case (Cons ident rest)
  then have "ident = takeWhile (\<lambda>c. c \<noteq> CHR ''.'') (URLParam r ''document'')"
    by (rule Split_first)
  with Cons show ?thesis
    by (simp add: StaticDocument_def validate_def getDocument_def Let_def queries_RenderError
             split: sum.splits prod.splits option.splits)
qed

lemma FetchDocument_refuses:
  "\<not> validate (URLParam r ''document'') (IDLength (Config s)) (set (Documents (Config s))) \<Longrightarrow>
     FetchDocument ext s r x =
       x\<lparr>resp := snd (WriteError ext (resp x) 400 (id_error (URLParam r ''document'') s))\<rparr>"
  by (simp add: FetchDocument_def validate_def)

lemma FetchDocument_fails:
  "validate (URLParam r ''document'') (IDLength (Config s)) (set (Documents (Config s))) \<Longrightarrow>
   GetDocument s (URLParam r ''document'') = Inl err \<Longrightarrow>
     FetchDocument ext s r x =
       x\<lparr>queries := queries x @ [URLParam r ''document''],
         resp := snd (WriteError ext (resp x) (storage_error_status err) err)\<rparr>"
  by (auto simp add: FetchDocument_def validate_def getDocument_def storage_error_status_def)

lemma FetchDocument_finds:
  assumes "validate (URLParam r ''document'') (IDLength (Config s)) (set (Documents (Config s)))"
    and "GetDocument s (URLParam r ''document'') = Inr d"
  shows "FetchDocument ext s r x =
       x\<lparr>queries := queries x @ [URLParam r ''document''],
         resp := snd (WriteJSON ext (Marshal_Document ext) (resp x) 200 d)\<rparr>"
proof -
  obtain e w1 where eq: "WriteJSON ext (Marshal_Document ext) (resp x) 200 d = (e, w1)"
    by (cases "WriteJSON ext (Marshal_Document ext) (resp x) 200 d")
  have "fst (WriteJSON ext (Marshal_Document ext) (resp x) 200 d) = None"
    by (rule WriteJSON_returns_nil)
  with eq have "e = None" by simp
  with eq assms show ?thesis
    by (auto simp add: FetchDocument_def validate_def getDocument_def)
qed

lemma FetchRawDocument_refuses:
  "\<not> validate (URLParam r ''document'') (IDLength (Config s)) (set (Documents (Config s))) \<Longrightarrow>
     FetchRawDocument ext s r x =
       x\<lparr>resp := snd (WriteError ext (resp x) 400 (id_error (URLParam r ''document'') s))\<rparr>"
  by (simp add: FetchRawDocument_def validate_def)

lemma FetchRawDocument_fails:
  "validate (URLParam r ''document'') (IDLength (Config s)) (set (Documents (Config s))) \<Longrightarrow>
   GetDocument s (URLParam r ''document'') = Inl err \<Longrightarrow> \<not> wroteHeader (resp x) \<Longrightarrow>
     status (resp (FetchRawDocument ext s r x)) = storage_error_status err \<and>
     wroteHeader (resp (FetchRawDocument ext s r x)) \<and>
     sentHeader (resp (FetchRawDocument ext s r x)) ''Content-Type'' = Some ''text/plain''"
  by (auto simp add: FetchRawDocument_def validate_def getDocument_def storage_error_status_def
        Write_def WriteHeader_def bodyAllowedForStatus_def Header_Set_def Let_def)

lemma FetchRawDocument_finds:
  "validate (URLParam r ''document'') (IDLength (Config s)) (set (Documents (Config s))) \<Longrightarrow>
   GetDocument s (URLParam r ''document'') = Inr d \<Longrightarrow> \<not> wroteHeader (resp x) \<Longrightarrow>
     resp (FetchRawDocument ext s r x) =
       (resp x)\<lparr>Header := (Header (resp x))(''Content-Type'' \<mapsto> ''text/plain''),
         wroteHeader := True, status := 200,
         sentHeader := (Header (resp x))(''Content-Type'' \<mapsto> ''text/plain''),
         body := body (resp x) @ Document.Content d\<rparr>"
  by (auto simp add: FetchRawDocument_def validate_def getDocument_def
        Write_def WriteHeader_def bodyAllowedForStatus_def Header_Set_def Let_def)

lemma StaticDocument_refuses:
  assumes "\<not> validate (takeWhile (\<lambda>c. c \<noteq> CHR ''.'') (URLParam r ''document''))
              (IDLength (Config s)) (set (Documents (Config s)))"
  shows "StaticDocument ext s r x =
           snd (RenderError ext x 400
                  (id_error (takeWhile (\<lambda>c. c \<noteq> CHR ''.'') (URLParam r ''document'')) s))"
proof (cases "Split (URLParam r ''document'') (CHR ''.'')")
  case Nil
  then show ?thesis by (simp add: Split_nonempty)
next
  case (Cons ident rest)
  then have "ident = takeWhile (\<lambda>c. c \<noteq> CHR ''.'') (URLParam r ''document'')"
    by (rule Split_first)
  with Cons assms show ?thesis
    by (simp add: StaticDocument_def validate_def)
qed

lemma StaticDocument_fails:
  assumes "validate (takeWhile (\<lambda>c. c \<noteq> CHR ''.'') (URLParam r ''document''))
              (IDLength (Config s)) (set (Documents (Config s)))"
    and "GetDocument s (takeWhile (\<lambda>c. c \<noteq> CHR ''.'') (URLParam r ''document'')) = Inl err"
  shows "StaticDocument ext s r x =
           snd (RenderError ext
                  (x\<lparr>queries := queries x @ [takeWhile (\<lambda>c. c \<noteq> CHR ''.'') (URLParam r ''document'')]\<rparr>)
                  (storage_error_status err) err)"
proof (cases "Split (URLParam r ''document'') (CHR ''.'')")
  case Nil
  then show ?thesis by (simp add: Split_nonempty)
next
  case (Cons ident rest)
  then have "ident = takeWhile (\<lambda>c. c \<noteq> CHR ''.'') (URLParam r ''document'')"
    by (rule Split_first)
  with Cons assms show ?thesis
    by (auto simp add: StaticDocument_def validate_def getDocument_def storage_error_status_def)
qed

lemma StaticDocument_highlights:
  assumes "validate (takeWhile (\<lambda>c. c \<noteq> CHR ''.'') (URLParam r ''document''))
              (IDLength (Config s)) (set (Documents (Config s)))"
    and "GetDocument s (takeWhile (\<lambda>c. c \<noteq> CHR ''.'') (URLParam r ''document'')) = Inr d"
    and "Query_Get r ''reader'' \<noteq> ''true''"
    and "ParseFS ext ''web/document.html'' = Inr t"
  shows "highlights (StaticDocument ext s r x) =
           highlights x @
             [(Document.Content d,
               if length (Split (URLParam r ''document'') (CHR ''.'')) = 2
               then Split (URLParam r ''document'') (CHR ''.'') ! 1 else [])]"
proof (cases "Split (URLParam r ''document'') (CHR ''.'')")
  case Nil
  then show ?thesis by (simp add: Split_nonempty)
next
  case (Cons ident rest)
  then have "ident = takeWhile (\<lambda>c. c \<noteq> CHR ''.'') (URLParam r ''document'')"
    by (rule Split_first)
  with Cons assms show ?thesis
    by (auto simp add: StaticDocument_def validate_def getDocument_def Let_def
          highlights_RenderError split: sum.splits prod.splits option.splits)
qed

subsection \<open>The decoder\<close>

lemma decode_members_strings:
  "decode_members (map (\<lambda>(k, v). (k, JString v)) kvs) m None = (m ++ map_of (rev kvs), None)"
proof (induction kvs arbitrary: m)
  case Nil
  then show ?case by simp
next
  case (Cons kv kvs)
  obtain k v where kv: "kv = (k, v)" by (cases kv)
  have "decode_members (map (\<lambda>(k, v). (k, JString v)) (kv # kvs)) m None =
          decode_members (map (\<lambda>(k, v). (k, JString v)) kvs) (m(k \<mapsto> v)) None"
    by (simp add: kv)
  also have "\<dots> = (m(k \<mapsto> v) ++ map_of (rev kvs), None)"
    by (rule Cons.IH)
  also have "m(k \<mapsto> v) ++ map_of (rev kvs) = m ++ map_of (rev (kv # kvs))"
    by (rule ext) (simp add: kv map_add_def split: option.splits)
  finally show ?case .
qed

lemma decode_members_saved: "snd (decode_members kvs m (Some e)) = Some e"
  by (induction kvs arbitrary: m) (auto split: prod.splits)

lemma decode_string_mismatch:
  "v \<noteq> JNull \<Longrightarrow> \<forall>s. v \<noteq> JString s \<Longrightarrow> \<exists>e. snd (decode_string v) = Some e"
  by (cases v) auto

lemma decode_members_mismatch:
  "(k, v) \<in> set kvs \<Longrightarrow> v \<noteq> JNull \<Longrightarrow> \<forall>s. v \<noteq> JString s \<Longrightarrow>
     \<exists>e. snd (decode_members kvs m saved) = Some e"
proof (induction kvs arbitrary: m saved)
  case Nil
  then show ?case by simp
next
  case (Cons kv kvs)
  obtain k' v' where kv: "kv = (k', v')" by (cases kv)
  obtain s' e' where ds: "decode_string v' = (s', e')" by (cases "decode_string v'")
  show ?case
  proof (cases "kv = (k, v)")
    case True
    with kv have "v' = v" by simp
    with Cons.prems ds obtain e where "e' = Some e"
      using decode_string_mismatch [of v] by auto
    then have "\<exists>e0. (case saved of Some e0 \<Rightarrow> Some e0 | None \<Rightarrow> e') = Some e0"
      by (cases saved) auto
    then obtain e0 where "(case saved of Some e0 \<Rightarrow> Some e0 | None \<Rightarrow> e') = Some e0" ..
    with kv ds show ?thesis by (simp add: decode_members_saved)
  next
    case False
    with Cons.prems have "(k, v) \<in> set kvs" by simp
    with Cons.IH Cons.prems kv ds show ?thesis by simp
  qed
qed

lemma HandleBody_json:
  "takeWhile (\<lambda>c. c \<noteq> CHR '';'') (Header_Get r ''Content-Type'') = ''application/json'' \<Longrightarrow>
     HandleBody maxSize r =
       (case Decode (Body r) Map.empty of
          Inl err \<Rightarrow> Inr (\<lparr>CreateRequest.Content = []\<rparr>, Some err)
        | Inr m \<Rightarrow> Inr (\<lparr>CreateRequest.Content = index m ''content''\<rparr>, None))"
proof (cases "Split (Header_Get r ''Content-Type'') (CHR '';'')")
  case Nil
  then show ?thesis by (simp add: Split_nonempty)
next
  case (Cons ct rest)
  assume a: "takeWhile (\<lambda>c. c \<noteq> CHR '';'') (Header_Get r ''Content-Type'') = ''application/json''"
  from Cons have "ct = takeWhile (\<lambda>c. c \<noteq> CHR '';'') (Header_Get r ''Content-Type'')"
    by (rule Split_first)
  with a Cons show ?thesis by (simp add: HandleBody_def)
qed

lemma HandleBody_other:
  assumes "takeWhile (\<lambda>c. c \<noteq> CHR '';'') (Header_Get r ''Content-Type'') \<noteq> ''application/json''"
    and "takeWhile (\<lambda>c. c \<noteq> CHR '';'') (Header_Get r ''Content-Type'') \<noteq> ''multipart/form-data''"
  shows "HandleBody maxSize r = Inr (\<lparr>CreateRequest.Content = []\<rparr>, None)"
proof (cases "Split (Header_Get r ''Content-Type'') (CHR '';'')")
  case Nil
  then show ?thesis by (simp add: Split_nonempty)
next
  case (Cons ct rest)
  then have "ct = takeWhile (\<lambda>c. c \<noteq> CHR '';'') (Header_Get r ''Content-Type'')"
    by (rule Split_first)
  with assms Cons show ?thesis by (simp add: HandleBody_def)
qed

section \<open>The claims\<close>

subsection \<open>Identifier validation and storage errors\<close>

text \<open>
  Claim C1. The JSON and raw handlers validate the route parameter \<open>p\<close>, the HTML
  handler its first segment \<open>q\<close> (the text before the first dot). Each handler asks the
  database for the identifier exactly when \<open>validate\<close> holds of it, that is when its
  length is \<open>L\<close> or it is reserved; when it does not hold, the database is not asked and
  the answer is 400. The HTML handler answers through the error template, so its 400
  is sent when that template parses: \<open>template.Must\<close> panics otherwise.
\<close>

theorem identifier_validation:
  assumes "URLParam r ''document'' = p"
    and "takeWhile (\<lambda>c. c \<noteq> CHR ''.'') p = q"
    and "IDLength (Config s) = L" and "set (Documents (Config s)) = R"
    and "\<not> wroteHeader (resp x)"
  shows "looked_up x (FetchDocument ext s r x) p = validate p L R
       \<and> refused x (FetchDocument ext s r x) = (\<not> validate p L R)
       \<and> looked_up x (FetchRawDocument ext s r x) p = validate p L R
       \<and> refused x (FetchRawDocument ext s r x) = (\<not> validate p L R)
       \<and> looked_up x (StaticDocument ext s r x) q = validate q L R
       \<and> (\<not> validate q L R \<longrightarrow> queries (StaticDocument ext s r x) = queries x)
       \<and> (ParseFS ext ''web/error.html'' = Inr t \<longrightarrow>
            refused x (StaticDocument ext s r x) = (\<not> validate q L R))"
proof -
  have a: "looked_up x (FetchDocument ext s r x) p = validate p L R"
    using assms by (simp add: looked_up_def queries_FetchDocument)
  have b: "refused x (FetchDocument ext s r x) = (\<not> validate p L R)"
    using assms by (auto simp add: refused_def queries_FetchDocument FetchDocument_refuses WriteError_sends)
  have c: "looked_up x (FetchRawDocument ext s r x) p = validate p L R"
    using assms by (simp add: looked_up_def queries_FetchRawDocument)
  have d: "refused x (FetchRawDocument ext s r x) = (\<not> validate p L R)"
    using assms by (auto simp add: refused_def queries_FetchRawDocument FetchRawDocument_refuses WriteError_sends)
  have e: "looked_up x (StaticDocument ext s r x) q = validate q L R"
    using assms by (simp add: looked_up_def queries_StaticDocument)
  have f: "\<not> validate q L R \<longrightarrow> queries (StaticDocument ext s r x) = queries x"
    using assms by (simp add: queries_StaticDocument)
  have g: "ParseFS ext ''web/error.html'' = Inr t \<longrightarrow>
            refused x (StaticDocument ext s r x) = (\<not> validate q L R)"
    using assms by (auto simp add: refused_def queries_StaticDocument StaticDocument_refuses RenderError_sends)
  from a b c d e f g show ?thesis by blast
qed

text \<open>
  Claim C1 on the concrete server: \<open>about\<close> is reserved, \<open>abcdef.go\<close> has nine bytes
  and its first segment six, \<open>abc\<close> has three.
\<close>

theorem identifier_validation_witness:
  "looked_up start (FetchDocument ext0 srv0 (get ''about'') start) ''about''
   \<and> looked_up start (FetchRawDocument ext0 srv0 (get ''about'') start) ''about''
   \<and> refused start (FetchDocument ext0 srv0 (get ''abcdef.go'') start)
   \<and> refused start (FetchRawDocument ext0 srv0 (get ''abcdef.go'') start)
   \<and> looked_up start (StaticDocument ext0 srv0 (get ''abcdef.go'') start) ''abcdef''
   \<and> refused start (StaticDocument ext0 srv0 (get ''abc'') start)"
  using identifier_validation [where r = "get ''about''" and p = "''about''" and q = "''about''" and s = srv0
              and L = 6 and R = "{''about''}" and x = start and ext = ext0 and t = page]
        identifier_validation [where r = "get ''abcdef.go''" and p = "''abcdef.go''" and q = "''abcdef''" and s = srv0
              and L = 6 and R = "{''about''}" and x = start and ext = ext0 and t = page]
        identifier_validation [where r = "get ''abc''" and p = "''abc''" and q = "''abc''" and s = srv0
              and L = 6 and R = "{''about''}" and x = start and ext = ext0 and t = page]
  by (simp add: fixtures validate_def)

text \<open>
  Claim C2. When the identifier \<open>q\<close> passes validation and the database returns an
  error for it, each of the three handlers answers with \<open>storage_error_status\<close> of the
  error: 404 when it is or wraps \<open>sql.ErrNoRows\<close>, 500 otherwise. Nothing else of the
  error decides the status. The HTML handler looks up the first segment of the
  parameter and answers through the error template.
\<close>

theorem storage_errors_classified:
  assumes "\<not> wroteHeader (resp x)"
    and "validate q (IDLength (Config s)) (set (Documents (Config s)))"
    and "GetDocument s q = Inl err"
  shows "(URLParam r ''document'' = q \<longrightarrow>
            status (resp (FetchDocument ext s r x)) = storage_error_status err
          \<and> status (resp (FetchRawDocument ext s r x)) = storage_error_status err)
       \<and> (takeWhile (\<lambda>c. c \<noteq> CHR ''.'') (URLParam r ''document'') = q
            \<and> ParseFS ext ''web/error.html'' = Inr t \<longrightarrow>
            status (resp (StaticDocument ext s r x)) = storage_error_status err)"
  using assms
  by (auto simp add: FetchDocument_fails FetchRawDocument_fails StaticDocument_fails
        WriteError_sends RenderError_sends storage_error_status_final)

text \<open>
  Claim C2 on the concrete server: \<open>zzzzzz\<close> is not stored, and the store fails on
  \<open>qwerty\<close>.
\<close>

theorem storage_errors_classified_witness:
  "status (resp (FetchDocument ext0 srv0 (get ''zzzzzz'') start)) = 404
   \<and> status (resp (FetchRawDocument ext0 srv0 (get ''zzzzzz'') start)) = 404
   \<and> status (resp (StaticDocument ext0 srv0 (get ''zzzzzz'') start)) = 404
   \<and> status (resp (FetchDocument ext0 srv0 (get ''qwerty'') start)) = 500
   \<and> status (resp (FetchRawDocument ext0 srv0 (get ''qwerty'') start)) = 500
   \<and> status (resp (StaticDocument ext0 srv0 (get ''qwerty'') start)) = 500"
  using storage_errors_classified [where x = start and q = "''zzzzzz''" and s = srv0 and err = ErrNoRows
              and r = "get ''zzzzzz''" and ext = ext0 and t = page]
        storage_errors_classified [where x = start and q = "''qwerty''" and s = srv0 and err = "New ''connection refused''"
              and r = "get ''qwerty''" and ext = ext0 and t = page]
  by (simp add: fixtures validate_def storage_error_status_def)

text \<open>
  Claim C9. On the HTML route the identifier that is validated and passed to the
  database is the first segment \<open>q\<close> of the parameter \<open>p\<close>, the text before its first dot;
  on the JSON and raw routes it is \<open>p\<close> itself.
\<close>

theorem html_route_first_segment:
  assumes "URLParam r ''document'' = p"
    and "takeWhile (\<lambda>c. c \<noteq> CHR ''.'') p = q"
    and "IDLength (Config s) = L" and "set (Documents (Config s)) = R"
  shows "queries (StaticDocument ext s r x) = queries x @ (if validate q L R then [q] else [])
       \<and> queries (FetchDocument ext s r x) = queries x @ (if validate p L R then [p] else [])
       \<and> queries (FetchRawDocument ext s r x) = queries x @ (if validate p L R then [p] else [])"
  using assms
  by (simp add: queries_StaticDocument queries_FetchDocument queries_FetchRawDocument)

text \<open>Claim C9 on \<open>abcdef.go\<close>, \<open>about.b.c\<close> and \<open>abcdef\<close>.\<close>

theorem html_route_first_segment_witness:
  "queries (StaticDocument ext0 srv0 (get ''abcdef.go'') start) = [''abcdef'']
   \<and> queries (FetchDocument ext0 srv0 (get ''abcdef.go'') start) = []
   \<and> queries (FetchRawDocument ext0 srv0 (get ''abcdef.go'') start) = []
   \<and> queries (StaticDocument ext0 srv0 (get ''about.b.c'') start) = [''about'']
   \<and> queries (FetchDocument ext0 srv0 (get ''abcdef'') start) = [''abcdef'']"
  using html_route_first_segment [where r = "get ''abcdef.go''" and p = "''abcdef.go''" and q = "''abcdef''" and s = srv0
              and L = 6 and R = "{''about''}" and x = start and ext = ext0]
        html_route_first_segment [where r = "get ''about.b.c''" and p = "''about.b.c''" and q = "''about''" and s = srv0
              and L = 6 and R = "{''about''}" and x = start and ext = ext0]
        html_route_first_segment [where r = "get ''abcdef''" and p = "''abcdef''" and q = "''abcdef''" and s = srv0
              and L = 6 and R = "{''about''}" and x = start and ext = ext0]
  by (simp add: fixtures validate_def)

subsection \<open>Rendering\<close>

text \<open>
  Claim C3. On the raw route, when the identifier passes validation and the database
  returns a document, the status is 200, the bytes written are the content of the
  document and nothing else, and the \<open>Content-Type\<close> sent is \<open>text/plain\<close>.
\<close>

theorem raw_body_is_content:
  assumes "URLParam r ''document'' = p"
    and "validate p (IDLength (Config s)) (set (Documents (Config s)))"
    and "GetDocument s p = Inr d"
    and "\<not> wroteHeader (resp x)"
  shows "status (resp (FetchRawDocument ext s r x)) = 200
       \<and> body (resp (FetchRawDocument ext s r x)) = body (resp x) @ Document.Content d
       \<and> sentHeader (resp (FetchRawDocument ext s r x)) ''Content-Type'' = Some ''text/plain''"
  using assms by (simp add: FetchRawDocument_finds)

text \<open>Claim C3 on the concrete server, for the stored document \<open>abcdef\<close>.\<close>

theorem raw_body_is_content_witness:
  "status (resp (FetchRawDocument ext0 srv0 (get ''abcdef'') start)) = 200
   \<and> body (resp (FetchRawDocument ext0 srv0 (get ''abcdef'') start)) = ''package main''
   \<and> sentHeader (resp (FetchRawDocument ext0 srv0 (get ''abcdef'') start)) ''Content-Type''
       = Some ''text/plain''"
  using raw_body_is_content [where r = "get ''abcdef''" and p = "''abcdef''" and s = srv0 and d = doc0
              and x = start and ext = ext0]
  by (simp add: fixtures validate_def)

text \<open>
  Claim C4, amended. Let the status be a final code that allows a body: from 200 to
  999, and neither 204 nor 304. For every payload that marshals to a JSON value \<open>p\<close>,
  \<open>WriteJSON\<close> sends the status and \<open>application/json\<close> and writes the object with the
  members \<open>error\<close> (the empty string) and \<open>payload\<close> (\<open>p\<close>), followed by a newline; for
  every error, \<open>WriteError\<close> does the same with the message of the error and the empty
  object as payload. Both return \<open>nil\<close>. (\<open>encoding/json\<close> writes the keys of a map
  sorted, so \<open>error\<close> comes first in the text.)
\<close>

theorem json_envelopes:
  assumes "\<not> wroteHeader w"
    and "200 \<le> st" and "st \<le> 999" and "st \<noteq> 204" and "st \<noteq> 304"
  shows "(marshal r = Inr p \<longrightarrow>
            WriteJSON ext marshal w st r =
              (None,
               w\<lparr>Header := (Header w)(''Content-Type'' \<mapsto> ''application/json''),
                 wroteHeader := True, status := st,
                 sentHeader := (Header w)(''Content-Type'' \<mapsto> ''application/json''),
                 body := body w @ render ext (JObject [(''error'', JString []), (''payload'', p)])
                         @ [CHR 0x0A]\<rparr>))
       \<and> WriteError ext w st e =
              (None,
               w\<lparr>Header := (Header w)(''Content-Type'' \<mapsto> ''application/json''),
                 wroteHeader := True, status := st,
                 sentHeader := (Header w)(''Content-Type'' \<mapsto> ''application/json''),
                 body := body w @ render ext (JObject [(''error'', JString (Error e)), (''payload'', JObject [])])
                         @ [CHR 0x0A]\<rparr>)"
  using assms
  by (simp add: WriteJSON_def WriteError_def Encode_def marshal_envelope_def Write_def WriteHeader_def
        bodyAllowedForStatus_def Header_Set_def Let_def)

text \<open>
  Claim C4, amended, on the stored document with status 200 and on the error
  \<open>sql.ErrNoRows\<close> with status 404.
\<close>

theorem json_envelopes_witness:
  "body (snd (WriteJSON ext0 (Marshal_Document ext0) NewResponseWriter 200 doc0))
     = ''{\"error\":\"\",\"payload\":{\"id\":\"abcdef\",\"content\":\"package main\"}}'' @ [CHR 0x0A]
   \<and> status (snd (WriteJSON ext0 (Marshal_Document ext0) NewResponseWriter 200 doc0)) = 200
   \<and> status (snd (WriteError ext0 NewResponseWriter 404 ErrNoRows)) = 404
   \<and> body (snd (WriteError ext0 NewResponseWriter 404 ErrNoRows))
     = ''{\"error\":\"sql: no rows in result set\",\"payload\":{}}'' @ [CHR 0x0A]"
  using json_envelopes [where w = NewResponseWriter and marshal = "Marshal_Document ext0" and r = doc0
              and p = "JObject [(''id'', JString ''abcdef''), (''content'', JString ''package main'')]"
              and ext = ext0 and st = 200 and e = ErrNoRows]
        json_envelopes [where w = NewResponseWriter and marshal = "Marshal_Document ext0" and r = doc0
              and p = "JObject [(''id'', JString ''abcdef''), (''content'', JString ''package main'')]"
              and ext = ext0 and st = 404 and e = ErrNoRows]
  by (simp add: fixtures quoted_def)

text \<open>
  Claim C4 as stated fails for a payload that does not marshal: for a channel,
  \<open>WriteJSON\<close> sends status 200 and the header and writes no body at all, so the client
  receives no envelope.
\<close>

theorem json_success_writer_unserialisable:
  "snd (WriteJSON ext0 marshal_chan NewResponseWriter 200 Chan) =
     NewResponseWriter\<lparr>Header := [''Content-Type'' \<mapsto> ''application/json''],
       wroteHeader := True, status := 200,
       sentHeader := [''Content-Type'' \<mapsto> ''application/json'']\<rparr>
   \<and> body (snd (WriteJSON ext0 marshal_chan NewResponseWriter 200 Chan)) = []"
  by (simp add: WriteJSON_def Encode_def marshal_envelope_def Write_def WriteHeader_def
        bodyAllowedForStatus_def Header_Set_def Let_def fixtures)

text \<open>
  Claim C6 fails on the code. When the fetched document does not marshal,
  \<open>WriteJSON\<close> returns \<open>nil\<close> all the same: it has sent the status before encoding and
  drops the error of \<open>Encode\<close>. \<open>FetchDocument\<close> therefore answers 200 and writes
  nothing, and its branch that would write the error with status 500 is never taken.
\<close>

theorem serialization_failure_swallowed:
  assumes "URLParam r ''document'' = p"
    and "validate p (IDLength (Config s)) (set (Documents (Config s)))"
    and "GetDocument s p = Inr d"
    and "Marshal_Document ext d = Inl e"
    and "\<not> wroteHeader (resp x)"
  shows "fst (WriteJSON ext (Marshal_Document ext) (resp x) 200 d) = None
       \<and> status (resp (FetchDocument ext s r x)) = 200
       \<and> body (resp (FetchDocument ext s r x)) = body (resp x)"
  using assms by (simp add: FetchDocument_finds WriteJSON_sends WriteJSON_returns_nil)

text \<open>Claim C6: the run on the concrete server whose documents do not marshal.\<close>

theorem serialization_failure_swallowed_witness:
  "fst (WriteJSON ext1 (Marshal_Document ext1) NewResponseWriter 200 doc0) = None
   \<and> status (resp (FetchDocument ext1 srv0 (get ''abcdef'') start)) = 200
   \<and> body (resp (FetchDocument ext1 srv0 (get ''abcdef'') start)) = []"
  using serialization_failure_swallowed [where r = "get ''abcdef''" and p = "''abcdef''" and s = srv0 and d = doc0
              and ext = ext1 and x = start
              and e = "New ''json: error calling MarshalJSON''"]
  by (simp add: fixtures validate_def)

text \<open>
  Claim C7, amended. On the HTML route in code mode, when the first segment \<open>q\<close> of the
  parameter \<open>p\<close> passes validation, the document is found and the document template
  parses, the highlighter is called once, with the content and this extension: the
  text after the dot when \<open>p\<close> has exactly one dot, and the empty string when \<open>p\<close> has no
  dot or more than one. In particular the extension is \<open>e\<close> for a parameter \<open>i.e\<close> with
  no dot in \<open>i\<close> and none in \<open>e\<close>.
\<close>

theorem extension_hint:
  assumes "URLParam r ''document'' = p"
    and "takeWhile (\<lambda>c. c \<noteq> CHR ''.'') p = q"
    and "validate q (IDLength (Config s)) (set (Documents (Config s)))"
    and "GetDocument s q = Inr d"
    and "Query_Get r ''reader'' \<noteq> ''true''"
    and "ParseFS ext ''web/document.html'' = Inr t"
  shows "highlights (StaticDocument ext s r x) =
           highlights x @
             [(Document.Content d,
               if count_list p (CHR ''.'') = 1 then drop (Suc (length q)) p else [])]
       \<and> (p = i @ CHR ''.'' # e \<and> CHR ''.'' \<notin> set i \<and> CHR ''.'' \<notin> set e \<longrightarrow>
            highlights (StaticDocument ext s r x) = highlights x @ [(Document.Content d, e)])"
proof -
  have h: "highlights (StaticDocument ext s r x) =
           highlights x @
             [(Document.Content d,
               if length (Split p (CHR ''.'')) = 2 then Split p (CHR ''.'') ! 1 else [])]"
    using assms StaticDocument_highlights [of r s d ext t x] by simp
  have general: "highlights (StaticDocument ext s r x) =
           highlights x @
             [(Document.Content d,
               if count_list p (CHR ''.'') = 1 then drop (Suc (length q)) p else [])]"
  proof (cases "count_list p (CHR ''.'') = 1")
    case True
    then have "Split p (CHR ''.'') = [q, drop (Suc (length q)) p]"
      using Split_one [of p "CHR ''.''"] assms(2) by simp
    with True h show ?thesis by simp
  next
    case False
    then have "length (Split p (CHR ''.'')) \<noteq> 2" by (simp add: length_Split)
    with False h show ?thesis by simp
  qed
  have particular: "highlights (StaticDocument ext s r x) = highlights x @ [(Document.Content d, e)]"
    if "p = i @ CHR ''.'' # e" and "CHR ''.'' \<notin> set i" and "CHR ''.'' \<notin> set e"
  proof -
    from that have "count_list p (CHR ''.'') = 1" by (simp add: one_dot)
    moreover from that assms(2) have "q = i" by (simp add: takeWhile_until)
    moreover from that have "drop (Suc (length i)) p = e" by simp
    ultimately show ?thesis using general by simp
  qed
  from general particular show ?thesis by blast
qed

text \<open>Claim C7, amended, for one dot, no dot and two dots.\<close>

theorem extension_hint_witness:
  "highlights (StaticDocument ext0 srv0 (get ''abcdef.go'') start) = [(''package main'', ''go'')]
   \<and> highlights (StaticDocument ext0 srv0 (get ''abcdef'') start) = [(''package main'', [])]
   \<and> highlights (StaticDocument ext0 srv0 (get ''abcdef.tar.gz'') start) = [(''package main'', [])]"
  using extension_hint [where r = "get ''abcdef.go''" and p = "''abcdef.go''" and q = "''abcdef''"
              and s = srv0 and d = doc0 and ext = ext0 and t = page and x = start
              and i = "''abcdef''" and e = "''go''"]
        extension_hint [where r = "get ''abcdef''" and p = "''abcdef''" and q = "''abcdef''"
              and s = srv0 and d = doc0 and ext = ext0 and t = page and x = start
              and i = "''abcdef''" and e = "[]"]
        extension_hint [where r = "get ''abcdef.tar.gz''" and p = "''abcdef.tar.gz''" and q = "''abcdef''"
              and s = srv0 and d = doc0 and ext = ext0 and t = page and x = start
              and i = "''abcdef''" and e = "''tar.gz''"]
  by (simp add: fixtures validate_def)

text \<open>
  Claim C7 as stated fails for \<open>abcdef.tar.gz\<close>: a suffix is supplied, and the
  parameter is \<open>id.ext\<close> for \<open>abcdef.tar\<close> and \<open>gz\<close> as for \<open>abcdef\<close> and \<open>tar.gz\<close>, yet the
  extension passed to the highlighter is empty, because the source takes the extension
  only when the split has exactly two parts.
\<close>

theorem extension_hint_two_dots:
  "highlights (StaticDocument ext0 srv0 (get ''abcdef.tar.gz'') start) = [(''package main'', [])]
   \<and> highlights (StaticDocument ext0 srv0 (get ''abcdef.tar.gz'') start) \<noteq> [(''package main'', ''gz'')]
   \<and> highlights (StaticDocument ext0 srv0 (get ''abcdef.tar.gz'') start) \<noteq> [(''package main'', ''tar.gz'')]"
  by (simp add: StaticDocument_def getDocument_def Execute_to_def Write_def WriteHeader_def
        bodyAllowedForStatus_def Let_def fixtures)

subsection \<open>Request bodies\<close>

text \<open>
  Claim C5. Let \<open>ct\<close> be the content type up to its first semicolon. When \<open>ct\<close> is
  \<open>application/json\<close> and the body is an object whose values are all strings,
  \<open>HandleBody\<close> returns no error and the value of the (last) member \<open>content\<close> as the
  content, the empty string when there is no such member. When \<open>ct\<close> is neither
  \<open>application/json\<close> nor \<open>multipart/form-data\<close>, it returns the empty request and no
  error.
\<close>

theorem body_decoder_json_and_default:
  assumes "takeWhile (\<lambda>c. c \<noteq> CHR '';'') (Header_Get r ''Content-Type'') = ct"
  shows "(ct = ''application/json'' \<and> Body r = Inr (JObject (map (\<lambda>(k, v). (k, JString v)) kvs)) \<longrightarrow>
            HandleBody maxSize r =
              Inr (\<lparr>CreateRequest.Content =
                      (case map_of (rev kvs) ''content'' of None \<Rightarrow> [] | Some v \<Rightarrow> v)\<rparr>, None)
          \<and> (''content'' \<notin> fst ` set kvs \<longrightarrow>
               HandleBody maxSize r = Inr (\<lparr>CreateRequest.Content = []\<rparr>, None)))
       \<and> (ct \<noteq> ''application/json'' \<and> ct \<noteq> ''multipart/form-data'' \<longrightarrow>
            HandleBody maxSize r = Inr (\<lparr>CreateRequest.Content = []\<rparr>, None))"
proof -
  have a: "HandleBody maxSize r =
              Inr (\<lparr>CreateRequest.Content =
                      (case map_of (rev kvs) ''content'' of None \<Rightarrow> [] | Some v \<Rightarrow> v)\<rparr>, None)"
    if "ct = ''application/json''"
      and "Body r = Inr (JObject (map (\<lambda>(k, v). (k, JString v)) kvs))"
    using that assms
    by (simp add: HandleBody_json Decode_def decode_members_strings index_def)
  have b: "map_of (rev kvs) ''content'' = None" if "''content'' \<notin> fst ` set kvs"
    using that by (simp add: map_of_eq_None_iff)
  have c: "HandleBody maxSize r = Inr (\<lparr>CreateRequest.Content = []\<rparr>, None)"
    if "ct \<noteq> ''application/json''" and "ct \<noteq> ''multipart/form-data''"
    using that assms by (simp add: HandleBody_other)
  from a b c show ?thesis by simp
qed

text \<open>
  Claim C5 on three requests: a JSON body with \<open>content\<close>, one without it, and a body
  sent as \<open>text/plain\<close>.
\<close>

theorem body_decoder_json_and_default_witness:
  "HandleBody 1 (post ''application/json; charset=utf-8''
        (Inr (JObject [(''content'', JString ''hello'')])))
     = Inr (\<lparr>CreateRequest.Content = ''hello''\<rparr>, None)
   \<and> HandleBody 1 (post ''application/json'' (Inr (JObject [(''text'', JString ''hello'')])))
     = Inr (\<lparr>CreateRequest.Content = []\<rparr>, None)
   \<and> HandleBody 1 (post ''text/plain'' (Inr (JObject [(''content'', JString ''hello'')])))
     = Inr (\<lparr>CreateRequest.Content = []\<rparr>, None)"
  using body_decoder_json_and_default [where r = "post ''application/json; charset=utf-8'' (Inr (JObject [(''content'', JString ''hello'')]))"
              and ct = "''application/json''" and kvs = "[(''content'', ''hello'')]" and maxSize = 1]
        body_decoder_json_and_default [where r = "post ''application/json'' (Inr (JObject [(''text'', JString ''hello'')]))"
              and ct = "''application/json''" and kvs = "[(''text'', ''hello'')]" and maxSize = 1]
        body_decoder_json_and_default [where r = "post ''text/plain'' (Inr (JObject [(''content'', JString ''hello'')]))"
              and ct = "''text/plain''" and kvs = "[]" and maxSize = 1]
  by (simp add: fixtures)

text \<open>
  Claim C10, amended. When the content type is \<open>application/json\<close> and the body is an
  object with a member whose value is neither a string nor \<open>null\<close>, \<open>HandleBody\<close>
  returns an error together with the zero request.
\<close>

theorem json_body_type_mismatch:
  assumes "takeWhile (\<lambda>c. c \<noteq> CHR '';'') (Header_Get r ''Content-Type'') = ''application/json''"
    and "Body r = Inr (JObject kvs)"
    and "(k, v) \<in> set kvs"
    and "v \<noteq> JNull" and "\<forall>s. v \<noteq> JString s"
  shows "\<exists>err. HandleBody maxSize r = Inr (\<lparr>CreateRequest.Content = []\<rparr>, Some err)"
proof -
  obtain e where "snd (decode_members kvs Map.empty None) = Some e"
    using decode_members_mismatch [OF assms(3) assms(4) assms(5)] by blast
  then obtain m where "decode_members kvs Map.empty None = (m, Some e)"
    by (cases "decode_members kvs Map.empty None") simp
  with assms show ?thesis by (simp add: HandleBody_json Decode_def)
qed

text \<open>Claim C10, amended, on the body \<open>{"content": 5}\<close>.\<close>

theorem json_body_type_mismatch_witness:
  "\<exists>err. HandleBody 1 (post ''application/json'' (Inr (JObject [(''content'', JNumber ''5'')])))
     = Inr (\<lparr>CreateRequest.Content = []\<rparr>, Some err)"
  using json_body_type_mismatch [where r = "post ''application/json'' (Inr (JObject [(''content'', JNumber ''5'')]))"
               and kvs = "[(''content'', JNumber ''5'')]" and k = "''content''" and v = "JNumber ''5''"
               and maxSize = 1]
  by (simp add: fixtures)

text \<open>
  Claim C10 as stated fails for the value \<open>null\<close>, which is not a string: the body
  \<open>{"content": null}\<close> decodes without an error, to the empty content.
\<close>

theorem json_body_null_accepted:
  "HandleBody 1 (post ''application/json'' (Inr (JObject [(''content'', JNull)])))
     = Inr (\<lparr>CreateRequest.Content = []\<rparr>, None)"
  by (simp add: HandleBody_def Decode_def index_def fixtures)

text \<open>
  Claim C8. \<open>ValidateBody\<close> accepts a \<open>SigninRequest\<close> exactly when its username is not
  empty and the length of its password is between 16 and 128.
\<close>

theorem signin_validation:
  "(ValidateBody maxSize (OfSigninRequest \<lparr>SigninRequest.Username = u, SigninRequest.Password = p\<rparr>) = None)
     = (u \<noteq> [] \<and> 16 \<le> length p \<and> length p \<le> 128)"
  by (auto simp add: ValidateStruct_def Field_def Let_def)

text \<open>
  Claim C8 on a password of 10 bytes, one of 16 bytes, and an empty username.
\<close>

theorem signin_validation_witness:
  "ValidateBody 400000 (OfSigninRequest \<lparr>SigninRequest.Username = ''luke'',
       SigninRequest.Password = ''0123456789''\<rparr>) \<noteq> None
   \<and> ValidateBody 400000 (OfSigninRequest \<lparr>SigninRequest.Username = ''luke'',
       SigninRequest.Password = ''0123456789abcdef''\<rparr>) = None
   \<and> ValidateBody 400000 (OfSigninRequest \<lparr>SigninRequest.Username = [],
       SigninRequest.Password = ''0123456789abcdef''\<rparr>) \<noteq> None"
  using signin_validation [of 400000 "''luke''" "''0123456789''"]
        signin_validation [of 400000 "''luke''" "''0123456789abcdef''"]
        signin_validation [of 400000 "[]" "''0123456789abcdef''"]
  by simp

end
